theory Spec2Isabelle
  imports Main
begin

section \<open>Values, rows and collaborators\<close>

text \<open>
  The two handlers under verification are \<^verbatim>\<open>extract_gam_config\<close>
  (\<^verbatim>\<open>app/api/v1/endpoints/gam.py\<close>) and \<^verbatim>\<open>execute_remediation\<close>
  (\<^verbatim>\<open>app/api/v1/endpoints/remediation.py\<close>). Both are glue between a request,
  the relational store, the GAM command line and the security analyser. The store is
  modelled as explicit state, every \<^verbatim>\<open>raise\<close> as a branch returning an error value,
  and the services the handlers call (\<^verbatim>\<open>GAMService\<close>, \<^verbatim>\<open>SecurityService\<close>), whose code
  is not part of the verified files, as parameters collected in the record \<open>env\<close>.
\<close>

subsection \<open>Python values\<close>

text \<open>
  The JSON-shaped values that travel through the handlers: request parameters
  (\<^verbatim>\<open>Dict[str, Any]\<close>), extracted payloads, \<^verbatim>\<open>affected_settings\<close>. A dictionary is an
  association list with string keys; floating point numbers are left out.
\<close>

datatype pyval =
    PNone
  | PBool bool
  | PInt int
  | PStr string
  | PList "pyval list"
  | PDict "(string \<times> pyval) list"

text \<open>Truth value testing, as \<^verbatim>\<open>if not x\<close> applies it.\<close>

fun truthy :: "pyval \<Rightarrow> bool" where
  "truthy PNone = False"
| "truthy (PBool b) = b"
| "truthy (PInt i) = (i \<noteq> 0)"
| "truthy (PStr s) = (s \<noteq> [])"
| "truthy (PList xs) = (xs \<noteq> [])"
| "truthy (PDict d) = (d \<noteq> [])"

text \<open>
  The operator \<^verbatim>\<open>==\<close>. \<^verbatim>\<open>bool\<close> is a subclass of \<^verbatim>\<open>int\<close>, so \<^verbatim>\<open>True == 1\<close>; lists compare
  element by element; dictionaries compare as mappings, whatever the insertion order.
\<close>

fun py_eq :: "pyval \<Rightarrow> pyval \<Rightarrow> bool" where
  "py_eq PNone PNone = True"
| "py_eq (PBool a) (PBool b) = (a = b)"
| "py_eq (PBool a) (PInt j) = ((if a then 1 else 0) = j)"
| "py_eq (PInt i) (PBool b) = (i = (if b then 1 else 0))"
| "py_eq (PInt i) (PInt j) = (i = j)"
| "py_eq (PStr s) (PStr t) = (s = t)"
| "py_eq (PList xs) (PList ys) =
     list_all2 py_eq xs ys"
| "py_eq (PDict d) (PDict e) =
     (length d = length e \<and>
      list_all (\<lambda>(k, v). case map_of e k of None \<Rightarrow> False | Some v' \<Rightarrow> py_eq v v') d)"
| "py_eq _ _ = False"

text \<open>\<^verbatim>\<open>d.get(k)\<close> yields \<^verbatim>\<open>None\<close> for a key that is absent.\<close>

definition py_get :: "pyval option \<Rightarrow> pyval" where
  "py_get v = (case v of None \<Rightarrow> PNone | Some x \<Rightarrow> x)"

text \<open>
  \<^verbatim>\<open>str(x)\<close> for the two shapes the handlers interpolate into messages themselves: an
  optional string (\<^verbatim>\<open>None\<close> prints as \<^verbatim>\<open>None\<close>) and a length.
\<close>

definition str_opt :: "string option \<Rightarrow> string" where
  "str_opt v = (case v of None \<Rightarrow> ''None'' | Some s \<Rightarrow> s)"

definition digit_char :: "nat \<Rightarrow> char" where
  "digit_char d = char_of (48 + d)"

function str_nat :: "nat \<Rightarrow> string" where
  "str_nat n = (if n < 10 then [digit_char n] else str_nat (n div 10) @ [digit_char (n mod 10)])"
  by pat_completeness auto
termination
  by (relation "measure (\<lambda>n. n)") auto

text \<open>\<^verbatim>\<open>', '.join(xs)\<close>.\<close>

fun join_comma :: "string list \<Rightarrow> string" where
  "join_comma [] = []"
| "join_comma [x] = x"
| "join_comma (x # y # ys) = x @ '', '' @ join_comma (y # ys)"

subsection \<open>The data model\<close>

text \<open>
  Modelled from the spec: the enumeration \<^verbatim>\<open>ConfigType\<close> of \<^verbatim>\<open>app.db.models\<close> is
  declared outside the verified files. The handlers name three of its members; the
  specification lists them as "USER, OAUTH_TOKENS, OTHER, ...", so every further member
  is \<open>MEMBER\<close> with a tag. The string \<^verbatim>\<open>t.value\<close> of a member is a parameter
  (\<open>type_value\<close> below).
\<close>

datatype config_type = USER | OAUTH_TOKENS | OTHER | MEMBER string

text \<open>
  Modelled from the spec: the severities of a finding, "critical, high, medium, low,
  info"; the column type is declared in \<^verbatim>\<open>app.db.models\<close>.
\<close>

datatype severity = Critical | High | Medium | Low | Info

text \<open>
  A finding as the analyser returns it: a dictionary read with \<^verbatim>\<open>f["..."]\<close> for the
  keys it always has and with \<^verbatim>\<open>f.get("...")\<close> for the optional ones.
\<close>

record finding_draft =
  fd_severity :: severity
  fd_category :: "string option"
  fd_title :: string
  fd_description :: string
  fd_recommendation :: string
  fd_affected_settings :: "pyval option"
  fd_remediation_steps :: "pyval option"
  fd_remediation_actions :: "pyval option"

text \<open>A row of \<^verbatim>\<open>SecurityAnalysis\<close>; a column left unset holds \<^verbatim>\<open>None\<close>.\<close>

record security_analysis =
  sa_id :: int
  sa_configuration_id :: int
  sa_severity :: severity
  sa_category :: "string option"
  sa_title :: string
  sa_description :: string
  sa_recommendation :: string
  sa_affected_settings :: pyval
  sa_remediation_steps :: pyval
  sa_remediation_actions :: pyval

record extraction_errors =
  ee_errors :: "pyval list"
  ee_failed_types :: "string list"

text \<open>A row of \<^verbatim>\<open>Configuration\<close>.\<close>

record configuration =
  cfg_id :: int
  cfg_name :: "string option"
  cfg_description :: string
  cfg_config_type :: config_type
  cfg_config_data :: "(string \<times> pyval) list"
  cfg_is_template :: bool
  cfg_extraction_errors :: "extraction_errors option"

text \<open>
  The store: the two tables in insertion order, and the identity the store gives to
  the next row of each. The session \<^verbatim>\<open>db\<close> of a handler reads and extends it.
\<close>

record database =
  configurations :: "configuration list"
  analyses :: "security_analysis list"
  next_configuration_id :: int
  next_analysis_id :: int

text \<open>
  What a handler can change: the store, and the external system, of which the model
  keeps the calls made to \<^verbatim>\<open>GAMService\<close> in order.
\<close>

datatype gam_call = RunGamCommand "pyval list" | ExtractAllConfigs "config_type list"

record world =
  db :: database
  gam_calls :: "gam_call list"

text \<open>The dictionary \<^verbatim>\<open>_run_gam_command\<close> returns, read with \<^verbatim>\<open>["success"]\<close>,
  \<^verbatim>\<open>.get("data")\<close> and \<^verbatim>\<open>.get("error")\<close>.\<close>

record gam_result =
  gr_success :: bool
  gr_data :: "string option"
  gr_error :: "string option"

text \<open>The dictionary \<^verbatim>\<open>extract_all_configs\<close> returns; \<open>er_errors\<close> is \<open>None\<close> when
  the key \<^verbatim>\<open>"errors"\<close> is absent.\<close>

record extract_result =
  er_success :: bool
  er_data :: "(string \<times> pyval) list"
  er_errors :: "pyval list option"

text \<open>
  The collaborators, as parameters: the two methods of \<^verbatim>\<open>GAMService\<close>, the two methods
  of \<^verbatim>\<open>SecurityService\<close> (the score reads only the \<^verbatim>\<open>"severity"\<close> of each finding), the
  \<^verbatim>\<open>value\<close> of a \<^verbatim>\<open>ConfigType\<close> member, and the text Python prints for a list of error
  records inside an f-string.
\<close>

record env =
  run_gam_command :: "pyval list \<Rightarrow> gam_result"
  extract_all_configs :: "config_type list \<Rightarrow> extract_result"
  analyze_configuration :: "(string \<times> pyval) list \<Rightarrow> config_type \<Rightarrow> finding_draft list"
  get_security_score :: "severity list \<Rightarrow> int"
  type_value :: "config_type \<Rightarrow> string"
  py_repr :: "pyval \<Rightarrow> string"

text \<open>What a handler raises.\<close>

datatype error =
    HTTPException nat string
  | AttributeError string
  | MultipleResultsFound

subsection \<open>Requests and responses\<close>

text \<open>\<^verbatim>\<open>RemediationRequest\<close> and \<^verbatim>\<open>RemediationResponse\<close> of \<^verbatim>\<open>app/schemas/remediation.py\<close>.\<close>

record remediation_request =
  finding_id :: int
  action_id :: string
  parameters :: "(string \<rightharpoonup> pyval) option"
  auto_rescan :: bool

record remediation_response =
  rr_success :: bool
  rr_message :: string
  rr_finding_id :: int
  rr_action_executed :: string
  rr_gam_output :: "string option"
  rr_new_configuration_id :: "int option"
  rr_security_score_before :: "int option"
  rr_security_score_after :: "int option"
  rr_finding_resolved :: bool

text \<open>
  Modelled from the spec: \<^verbatim>\<open>GAMExtractRequest\<close> and \<^verbatim>\<open>GAMExtractResponse\<close> are declared
  in \<^verbatim>\<open>app.schemas.config\<close>; their fields are the ones the handler reads and writes,
  which the specification lists for the extract entry point.
\<close>

record gam_extract_request =
  config_types :: "config_type list"
  save_as_template :: bool
  template_name :: "string option"

record gam_extract_response =
  xr_success :: bool
  xr_message :: string
  xr_configuration_id :: int
  xr_extracted_types :: "config_type list"
  xr_total_items :: nat
  xr_errors :: "pyval list option"
  xr_failed_types :: "config_type list option"

section \<open>The store\<close>

text \<open>\<^verbatim>\<open>scalar_one_or_none()\<close> on the rows a \<^verbatim>\<open>select\<close> matched.\<close>

definition scalar_one_or_none :: "'a list \<Rightarrow> error + 'a option" where
  "scalar_one_or_none rows =
     (case rows of
        [] \<Rightarrow> Inr None
      | [r] \<Rightarrow> Inr (Some r)
      | _ \<Rightarrow> Inl MultipleResultsFound)"

text \<open>
  \<^verbatim>\<open>db.add(row); await db.commit(); await db.refresh(row)\<close>: the store gives the row its
  identity and the handler reads it back.
\<close>

definition add_configuration :: "configuration \<Rightarrow> database \<Rightarrow> configuration \<times> database" where
  "add_configuration c d =
     (let c' = c\<lparr>cfg_id := next_configuration_id d\<rparr>
      in (c', d\<lparr>configurations := configurations d @ [c'],
                next_configuration_id := next_configuration_id d + 1\<rparr>))"

definition add_analysis :: "security_analysis \<Rightarrow> database \<Rightarrow> database" where
  "add_analysis a d =
     d\<lparr>analyses := analyses d @ [a\<lparr>sa_id := next_analysis_id d\<rparr>],
       next_analysis_id := next_analysis_id d + 1\<rparr>"

text \<open>
  The row built from a finding of the analyser. The extract handler copies
  \<^verbatim>\<open>remediation_actions\<close> (gam.py, lines 67 to 77); the rescan of the remediation handler
  does not (remediation.py, lines 124 to 133), so the column stays \<^verbatim>\<open>None\<close> there.
\<close>

definition analysis_row :: "bool \<Rightarrow> int \<Rightarrow> finding_draft \<Rightarrow> security_analysis" where
  "analysis_row with_actions cid f =
     \<lparr>sa_id = 0,
      sa_configuration_id = cid,
      sa_severity = fd_severity f,
      sa_category = fd_category f,
      sa_title = fd_title f,
      sa_description = fd_description f,
      sa_recommendation = fd_recommendation f,
      sa_affected_settings = py_get (fd_affected_settings f),
      sa_remediation_steps = py_get (fd_remediation_steps f),
      sa_remediation_actions =
        (if with_actions then py_get (fd_remediation_actions f) else PNone)\<rparr>"

definition add_findings :: "bool \<Rightarrow> int \<Rightarrow> finding_draft list \<Rightarrow> database \<Rightarrow> database" where
  "add_findings with_actions cid fs d = fold (\<lambda>f. add_analysis (analysis_row with_actions cid f)) fs d"

text \<open>
  Modelled from the spec: the tables are declared in \<^verbatim>\<open>app.db.models\<close>. The
  specification gives every row an identity assigned on insert, and every finding the
  \<^verbatim>\<open>configuration_id\<close> of the configuration that owns it ("referential integrity").
  So in a well-formed store identities are unique, those handed out so far lie below
  the next one, and the owner of every finding is stored.
\<close>

definition wf_store :: "database \<Rightarrow> bool" where
  "wf_store d \<longleftrightarrow>
     distinct (map sa_id (analyses d)) \<and>
     distinct (map cfg_id (configurations d)) \<and>
     list_all (\<lambda>a. sa_configuration_id a \<in> set (map cfg_id (configurations d))) (analyses d) \<and>
     list_all (\<lambda>a. sa_id a < next_analysis_id d) (analyses d) \<and>
     list_all (\<lambda>c. cfg_id c < next_configuration_id d) (configurations d)"

section \<open>The extract handler\<close>

text \<open>
  \<^verbatim>\<open>sum(len(data) if isinstance(data, list) else 1 for data in result["data"].values())\<close>
  (gam.py, lines 34 to 37): \<^verbatim>\<open>sum\<close> adds the terms to 0 from the left.
\<close>

definition payload_items :: "pyval \<Rightarrow> nat" where
  "payload_items data = (case data of PList xs \<Rightarrow> length xs | _ \<Rightarrow> 1)"

definition count_total_items :: "(string \<times> pyval) list \<Rightarrow> nat" where
  "count_total_items result_data = foldl (+) 0 (map payload_items (map snd result_data))"

text \<open>\<^verbatim>\<open>xs[0] if len(xs) == 1 else ConfigType.OTHER\<close> (gam.py, line 48; remediation.py, line 107).\<close>

definition single_or_other :: "config_type list \<Rightarrow> config_type" where
  "single_or_other cts = (if length cts = 1 then hd cts else OTHER)"

definition extract_gam_config ::
  "env \<Rightarrow> gam_extract_request \<Rightarrow> world \<Rightarrow> (error + gam_extract_response) \<times> world" where
  "extract_gam_config ev request w =
     (let result = extract_all_configs ev (config_types request);
          w1 = w\<lparr>gam_calls := gam_calls w @ [ExtractAllConfigs (config_types request)]\<rparr>;
          errors = (case er_errors result of None \<Rightarrow> [] | Some es \<Rightarrow> es)
      in if \<not> er_success result \<and> er_data result = [] then
           (Inl (HTTPException 500
                  (''Failed to extract configurations: '' @ py_repr ev (PList errors))), w1)
         else
           let total_items = count_total_items (er_data result);
               failed_types =
                 filter (\<lambda>t. type_value ev t \<notin> set (map fst (er_data result))) (config_types request);
               config_name =
                 (if save_as_template request then template_name request
                  else Some (''GAM Extract '' @ join_comma (map fst (er_data result))));
               (db_config, d1) = add_configuration
                 \<lparr>cfg_id = 0,
                  cfg_name = config_name,
                  cfg_description = ''Extracted from GAM - Types: '' @
                    join_comma (map (type_value ev) (config_types request)),
                  cfg_config_type = single_or_other (config_types request),
                  cfg_config_data = er_data result,
                  cfg_is_template = save_as_template request,
                  cfg_extraction_errors =
                    (if errors \<noteq> [] then
                       Some \<lparr>ee_errors = errors,
                             ee_failed_types = map (type_value ev) failed_types\<rparr>
                     else None)\<rparr> (db w1);
               findings = analyze_configuration ev (cfg_config_data db_config)
                            (cfg_config_type db_config);
               d2 = add_findings True (cfg_id db_config) findings d1
           in (Inr \<lparr>xr_success = True,
                    xr_message =
                      (if errors = [] then ''Configuration extracted successfully''
                       else ''Partially extracted ('' @ str_nat (length errors) @ '' errors)''),
                    xr_configuration_id = cfg_id db_config,
                    xr_extracted_types = config_types request,
                    xr_total_items = total_items,
                    xr_errors = (if errors \<noteq> [] then Some errors else None),
                    xr_failed_types = (if failed_types \<noteq> [] then Some failed_types else None)\<rparr>,
               w1\<lparr>db := d2\<rparr>))"

section \<open>The remediation handler\<close>

text \<open>
  Lines 21 to 36: the finding, then the configuration that owns it; either may be
  absent, which is answered with status 404.
\<close>

definition lookup :: "database \<Rightarrow> int \<Rightarrow> error + security_analysis \<times> configuration" where
  "lookup d fid =
     (case scalar_one_or_none (filter (\<lambda>a. sa_id a = fid) (analyses d)) of
        Inl e \<Rightarrow> Inl e
      | Inr None \<Rightarrow> Inl (HTTPException 404 ''Security finding not found'')
      | Inr (Some finding) \<Rightarrow>
          (case scalar_one_or_none
                  (filter (\<lambda>c. cfg_id c = sa_configuration_id finding) (configurations d)) of
             Inl e \<Rightarrow> Inl e
           | Inr None \<Rightarrow> Inl (HTTPException 404 ''Configuration not found'')
           | Inr (Some config) \<Rightarrow> Inr (finding, config)))"

text \<open>
  Lines 52 to 72: the argument list of the command for an action, or the error raised
  instead of running one. \<^verbatim>\<open>request.parameters.get\<close> on \<^verbatim>\<open>None\<close> is an \<^verbatim>\<open>AttributeError\<close>
  (whose argument here is the attribute asked for); a parameter that is absent or falsy
  is answered with status 400, and so is an action that is not known.
\<close>

definition gam_command :: "remediation_request \<Rightarrow> error + pyval list" where
  "gam_command request =
     (if action_id request = ''enforce_2fa'' then
        (case parameters request of
           None \<Rightarrow> Inl (AttributeError ''get'')
         | Some ps \<Rightarrow>
             let user_email = py_get (ps ''user_email'')
             in if \<not> truthy user_email then
                  Inl (HTTPException 400 ''user_email parameter required'')
                else Inr [PStr ''update'', PStr ''user'', user_email,
                          PStr ''enforcein2sv'', PStr ''true''])
      else if action_id request = ''revoke_oauth_token'' then
        (case parameters request of
           None \<Rightarrow> Inl (AttributeError ''get'')
         | Some ps \<Rightarrow>
             let user = py_get (ps ''user'');
                 client_id = py_get (ps ''client_id'')
             in if \<not> truthy user \<or> \<not> truthy client_id then
                  Inl (HTTPException 400 ''user and client_id parameters required'')
                else Inr [PStr ''user'', user, PStr ''revoke'', PStr ''token'', client_id])
      else Inl (HTTPException 400 (''Unknown action_id: '' @ action_id request)))"

text \<open>Lines 91 to 96: the categories to extract again after an action.\<close>

definition config_types_to_extract :: "string \<Rightarrow> config_type list" where
  "config_types_to_extract aid =
     (if aid = ''enforce_2fa'' then [USER]
      else if aid = ''revoke_oauth_token'' then [OAUTH_TOKENS]
      else [])"

text \<open>
  Lines 142 to 146: \<^verbatim>\<open>any(...)\<close> over the new findings, comparing the title and the
  affected settings with those of the finding remediated.
\<close>

definition still_present :: "security_analysis \<Rightarrow> finding_draft list \<Rightarrow> bool" where
  "still_present finding new_findings =
     list_ex (\<lambda>f. fd_title f = sa_title finding \<and>
                  py_eq (py_get (fd_affected_settings f)) (sa_affected_settings finding))
       new_findings"

text \<open>
  Lines 85 to 146: the optional rescan after a command that succeeded. The result is
  \<open>(new_config_id, score_after, finding_resolved)\<close>, which start as
  \<^verbatim>\<open>None\<close>, \<^verbatim>\<open>None\<close>, \<^verbatim>\<open>False\<close> and change only when the extraction succeeds.
\<close>

definition rescan ::
  "env \<Rightarrow> remediation_request \<Rightarrow> security_analysis \<Rightarrow> configuration \<Rightarrow> world \<Rightarrow>
     (int option \<times> int option \<times> bool) \<times> world" where
  "rescan ev request finding config w =
     (if auto_rescan request then
        let cts = config_types_to_extract (action_id request)
        in if cts \<noteq> [] then
             let extract_result = extract_all_configs ev cts;
                 w1 = w\<lparr>gam_calls := gam_calls w @ [ExtractAllConfigs cts]\<rparr>
             in if er_success extract_result then
                  let (new_config, d1) = add_configuration
                        \<lparr>cfg_id = 0,
                         cfg_name = Some (''Post-Remediation: '' @ str_opt (cfg_name config)),
                         cfg_description = ''Re-extracted after fixing: '' @ sa_title finding,
                         cfg_config_type = single_or_other cts,
                         cfg_config_data = er_data extract_result,
                         cfg_is_template = False,
                         cfg_extraction_errors = None\<rparr> (db w1);
                      new_config_id = cfg_id new_config;
                      new_findings = analyze_configuration ev (cfg_config_data new_config)
                                       (cfg_config_type new_config);
                      d2 = add_findings False new_config_id new_findings d1;
                      score_after = get_security_score ev (map fd_severity new_findings);
                      finding_resolved = (\<not> still_present finding new_findings)
                  in ((Some new_config_id, Some score_after, finding_resolved), w1\<lparr>db := d2\<rparr>)
                else ((None, None, False), w1)
           else ((None, None, False), w)
      else ((None, None, False), w))"

definition execute_remediation ::
  "env \<Rightarrow> remediation_request \<Rightarrow> world \<Rightarrow> (error + remediation_response) \<times> world" where
  "execute_remediation ev request w =
     (case lookup (db w) (finding_id request) of
        Inl e \<Rightarrow> (Inl e, w)
      | Inr (finding, config) \<Rightarrow>
          let analyses_before =
                filter (\<lambda>a. sa_configuration_id a = sa_configuration_id finding) (analyses (db w));
              score_before = get_security_score ev (map sa_severity analyses_before)
          in (case gam_command request of
                Inl e \<Rightarrow> (Inl e, w)
              | Inr args \<Rightarrow>
                  let gam_result = run_gam_command ev args;
                      w1 = w\<lparr>gam_calls := gam_calls w @ [RunGamCommand args]\<rparr>
                  in if \<not> gr_success gam_result then
                       (Inr \<lparr>rr_success = False,
                             rr_message = ''Remediation failed: '' @ str_opt (gr_error gam_result),
                             rr_finding_id = finding_id request,
                             rr_action_executed = action_id request,
                             rr_gam_output = gr_error gam_result,
                             rr_new_configuration_id = None,
                             rr_security_score_before = None,
                             rr_security_score_after = None,
                             rr_finding_resolved = False\<rparr>, w1)
                     else
                       let ((new_config_id, score_after, finding_resolved), w2) =
                             rescan ev request finding config w1
                       in (Inr \<lparr>rr_success = True,
                                rr_message = ''Remediation executed successfully'' @
                                  (if finding_resolved then '' and verified'' else []),
                                rr_finding_id = finding_id request,
                                rr_action_executed = action_id request,
                                rr_gam_output = gr_data gam_result,
                                rr_new_configuration_id = new_config_id,
                                rr_security_score_before = Some score_before,
                                rr_security_score_after = score_after,
                                rr_finding_resolved = finding_resolved\<rparr>, w2)))"

section \<open>The specification's item count\<close>

text \<open>
  The specification's words for \<open>item_count\<close>: "sums, per category, the element count
  if the payload is a sequence, else counts as 1", written as a recursion over the
  mapping, to be compared with \<open>count_total_items\<close> of the handler.
\<close>

fun item_count :: "(string \<times> pyval) list \<Rightarrow> nat" where
  "item_count [] = 0"
| "item_count ((category, PList elements) # rest) = length elements + item_count rest"
| "item_count ((category, payload) # rest) = 1 + item_count rest"

section \<open>A concrete scenario\<close>

text \<open>
  The end-to-end scenario of the specification: the store holds finding 7, titled
  "No 2FA", with affected settings \<^verbatim>\<open>{user: "a@x.com"}\<close>, owned by configuration 3. The
  collaborators of the scenario answer every call with the given results.
\<close>

definition scenario_finding :: security_analysis where
  "scenario_finding =
     \<lparr>sa_id = 7, sa_configuration_id = 3, sa_severity = High, sa_category = Some ''users'',
      sa_title = ''No 2FA'', sa_description = ''2FA is not enforced'',
      sa_recommendation = ''Enforce 2FA'',
      sa_affected_settings = PDict [(''user'', PStr ''a@x.com'')],
      sa_remediation_steps = PNone, sa_remediation_actions = PNone\<rparr>"

definition scenario_configuration :: configuration where
  "scenario_configuration =
     \<lparr>cfg_id = 3, cfg_name = Some ''GAM Extract user'',
      cfg_description = ''Extracted from GAM - Types: user'', cfg_config_type = USER,
      cfg_config_data = [(''user'', PList [PDict [(''email'', PStr ''a@x.com'')]])],
      cfg_is_template = False, cfg_extraction_errors = None\<rparr>"

definition scenario_world :: world where
  "scenario_world =
     \<lparr>db = \<lparr>configurations = [scenario_configuration], analyses = [scenario_finding],
             next_configuration_id = 4, next_analysis_id = 8\<rparr>,
      gam_calls = []\<rparr>"

definition scenario_value :: "config_type \<Rightarrow> string" where
  "scenario_value t =
     (case t of USER \<Rightarrow> ''user'' | OAUTH_TOKENS \<Rightarrow> ''oauth_tokens'' | OTHER \<Rightarrow> ''other''
      | MEMBER v \<Rightarrow> v)"

definition scenario_score :: "severity list \<Rightarrow> int" where
  "scenario_score sevs = max 0 (100 - 10 * int (length sevs))"

definition scenario_env :: "gam_result \<Rightarrow> extract_result \<Rightarrow> finding_draft list \<Rightarrow> env" where
  "scenario_env command_result extraction new_findings =
     \<lparr>run_gam_command = (\<lambda>args. command_result),
      extract_all_configs = (\<lambda>cts. extraction),
      analyze_configuration = (\<lambda>config_data config_type. new_findings),
      get_security_score = scenario_score,
      type_value = scenario_value,
      py_repr = (\<lambda>v. ''[...]'')\<rparr>"

definition command_ok :: gam_result where
  "command_ok = \<lparr>gr_success = True, gr_data = Some ''updated'', gr_error = None\<rparr>"

definition command_failed :: gam_result where
  "command_failed = \<lparr>gr_success = False, gr_data = None, gr_error = Some ''exit 1''\<rparr>"

definition extraction_ok :: extract_result where
  "extraction_ok =
     \<lparr>er_success = True,
      er_data = [(''user'', PList [PDict [(''email'', PStr ''a@x.com'')]])],
      er_errors = Some []\<rparr>"

definition extraction_failed :: extract_result where
  "extraction_failed =
     \<lparr>er_success = False, er_data = [],
      er_errors = Some [PDict [(''type'', PStr ''user''), (''error'', PStr ''exit 1'')]]\<rparr>"

text \<open>A finding of the rescan titled as the one of the scenario, with the given settings.\<close>

definition scenario_draft :: "pyval option \<Rightarrow> finding_draft" where
  "scenario_draft settings =
     \<lparr>fd_severity = High, fd_category = Some ''users'', fd_title = ''No 2FA'',
      fd_description = ''2FA is still not enforced'', fd_recommendation = ''Enforce 2FA'',
      fd_affected_settings = settings, fd_remediation_steps = None,
      fd_remediation_actions = None\<rparr>"

definition scenario_request :: remediation_request where
  "scenario_request =
     \<lparr>finding_id = 7, action_id = ''enforce_2fa'',
      parameters = Some [''user_email'' \<mapsto> PStr ''a@x.com''], auto_rescan = True\<rparr>"

section \<open>Properties of the handlers\<close>

subsection \<open>Counting items\<close>

lemma foldl_add_shift: "foldl (+) (a::nat) ns = a + foldl (+) 0 ns"
  by (induction ns arbitrary: a) (simp, metis (no_types) foldl_Cons add.assoc add.left_neutral)

lemma count_total_items_Cons:
  "count_total_items ((k, v) # rest) = payload_items v + count_total_items rest"
  unfolding count_total_items_def
  by (simp add: foldl_add_shift [of "payload_items v"])

lemma count_is_item_count: "count_total_items result_data = item_count result_data"
proof (induction result_data rule: item_count.induct)
  case 1
  show ?case by (simp add: count_total_items_def)
qed (simp_all add: count_total_items_Cons payload_items_def)

subsection \<open>The lookup\<close>

lemma filter_key_distinct:
  "distinct (map key rows) \<Longrightarrow> r \<in> set rows \<Longrightarrow> filter (\<lambda>a. key a = key r) rows = [r]"
proof (induction rows)
  case Nil
  then show ?case by simp
next
  case (Cons a rows)
  show ?case
  proof (cases "a = r")
    case True
    have "key r \<notin> key ` set rows" using Cons.prems(1) True by simp
    then have "filter (\<lambda>a. key a = key r) rows = []"
      by (simp add: filter_empty_conv image_iff) metis
    with True show ?thesis by simp
  next
    case False
    with Cons.prems have r: "r \<in> set rows" and d: "distinct (map key rows)" by auto
    from Cons.prems(1) r have "key a \<noteq> key r" by auto
    with Cons.IH [OF d r] show ?thesis by simp
  qed
qed

lemma lookup_absent:
  assumes "fid \<notin> sa_id ` set (analyses d)"
  shows "lookup d fid = Inl (HTTPException 404 ''Security finding not found'')"
proof -
  have "filter (\<lambda>a. sa_id a = fid) (analyses d) = []"
    using assms by (auto simp: filter_empty_conv)
  then show ?thesis by (simp add: lookup_def scalar_one_or_none_def)
qed

lemma lookup_present:
  assumes wf: "wf_store d" and "fid \<in> sa_id ` set (analyses d)"
  shows "\<exists>finding config. lookup d fid = Inr (finding, config)"
proof -
  from assms(2) obtain finding where f: "finding \<in> set (analyses d)" "sa_id finding = fid"
    by auto
  from wf f(1) have "distinct (map sa_id (analyses d))"
    and "distinct (map cfg_id (configurations d))"
    and "sa_configuration_id finding \<in> cfg_id ` set (configurations d)"
    by (auto simp: wf_store_def list_all_iff)
  then obtain config where c: "config \<in> set (configurations d)"
      "cfg_id config = sa_configuration_id finding"
    by auto
  have 1: "filter (\<lambda>a. sa_id a = fid) (analyses d) = [finding]"
    using filter_key_distinct [OF \<open>distinct (map sa_id (analyses d))\<close> f(1)] f(2) by simp
  have 2: "filter (\<lambda>c. cfg_id c = sa_configuration_id finding) (configurations d) = [config]"
    using filter_key_distinct [OF \<open>distinct (map cfg_id (configurations d))\<close> c(1)] c(2) by simp
  show ?thesis by (simp add: lookup_def scalar_one_or_none_def 1 2)
qed

lemma lookup_error_cases:
  assumes "lookup d fid = Inl e"
  shows "e = HTTPException 404 ''Security finding not found'' \<or>
         e = HTTPException 404 ''Configuration not found'' \<or> e = MultipleResultsFound"
  using assms
  by (auto simp: lookup_def scalar_one_or_none_def split: list.splits sum.splits option.splits)

subsection \<open>The remediation handler, branch by branch\<close>

lemma execute_lookup_error:
  "lookup (db w) (finding_id request) = Inl e \<Longrightarrow> execute_remediation ev request w = (Inl e, w)"
  by (simp add: execute_remediation_def)

lemma execute_command_error:
  "lookup (db w) (finding_id request) = Inr (finding, config) \<Longrightarrow> gam_command request = Inl e \<Longrightarrow>
   execute_remediation ev request w = (Inl e, w)"
  by (simp add: execute_remediation_def)

lemma execute_without_command:
  assumes "gam_command request = Inl e"
  shows "\<exists>e'. execute_remediation ev request w = (Inl e', w) \<and>
              (e' = e \<or> lookup (db w) (finding_id request) = Inl e')"
proof (cases "lookup (db w) (finding_id request)")
  case (Inl e')
  then show ?thesis by (simp add: execute_lookup_error)
next
  case (Inr p)
  then show ?thesis using assms by (cases p) (simp add: execute_command_error)
qed

lemma known_action_types:
  "gam_command request = Inr args \<Longrightarrow>
   config_types_to_extract (action_id request) = [USER] \<or>
   config_types_to_extract (action_id request) = [OAUTH_TOKENS]"
  by (auto simp: gam_command_def config_types_to_extract_def split: if_splits)

subsection \<open>The rescan and the successful command\<close>

lemma add_findings_configurations [simp]:
  "configurations (add_findings with_actions cid fs d) = configurations d"
  unfolding add_findings_def
  by (induction fs arbitrary: d) (simp_all add: add_analysis_def)

lemma rescan_not_requested:
  "\<not> auto_rescan request \<Longrightarrow> rescan ev request finding config w = ((None, None, False), w)"
  by (simp add: rescan_def)

lemma rescan_extraction_failed:
  assumes "auto_rescan request"
    and "\<not> er_success (extract_all_configs ev (config_types_to_extract (action_id request)))"
  shows "\<exists>w'. rescan ev request finding config w = ((None, None, False), w') \<and> db w' = db w"
  using assms by (simp add: rescan_def Let_def)

lemma rescan_extraction_ok:
  assumes "auto_rescan request"
    and "cts = config_types_to_extract (action_id request)" and "cts \<noteq> []"
    and "er_success (extract_all_configs ev cts)"
    and "new_findings = analyze_configuration ev (er_data (extract_all_configs ev cts)) (single_or_other cts)"
  shows "\<exists>w' new_config.
           rescan ev request finding config w =
             ((Some (next_configuration_id (db w)), Some (get_security_score ev (map fd_severity new_findings)),
               \<not> still_present finding new_findings), w') \<and>
           configurations (db w') = configurations (db w) @ [new_config] \<and>
           cfg_id new_config = next_configuration_id (db w) \<and>
           cfg_config_type new_config = single_or_other cts \<and>
           cfg_config_data new_config = er_data (extract_all_configs ev cts)"
  using assms by (simp add: rescan_def Let_def add_configuration_def)

lemma execute_command_ok:
  assumes "lookup (db w) (finding_id request) = Inr (finding, config)"
    and "gam_command request = Inr args"
    and "gr_success (run_gam_command ev args)"
    and "rescan ev request finding config (w\<lparr>gam_calls := gam_calls w @ [RunGamCommand args]\<rparr>)
           = ((new_config_id, score_after, finding_resolved), w')"
  shows "execute_remediation ev request w =
           (Inr \<lparr>rr_success = True,
                 rr_message = ''Remediation executed successfully'' @
                   (if finding_resolved then '' and verified'' else []),
                 rr_finding_id = finding_id request,
                 rr_action_executed = action_id request,
                 rr_gam_output = gr_data (run_gam_command ev args),
                 rr_new_configuration_id = new_config_id,
                 rr_security_score_before = Some (get_security_score ev (map sa_severity
                    (filter (\<lambda>a. sa_configuration_id a = sa_configuration_id finding) (analyses (db w))))),
                 rr_security_score_after = score_after,
                 rr_finding_resolved = finding_resolved\<rparr>, w')"
  using assms by (simp add: execute_remediation_def Let_def)

subsection \<open>The extract handler, branch by branch\<close>

lemma extract_gam_config_total_failure:
  assumes "result = extract_all_configs ev (config_types request)"
    and "\<not> er_success result" and "er_data result = []"
  shows "extract_gam_config ev request w =
           (Inl (HTTPException 500 (''Failed to extract configurations: '' @
                   py_repr ev (PList (case er_errors result of None \<Rightarrow> [] | Some es \<Rightarrow> es)))),
            w\<lparr>gam_calls := gam_calls w @ [ExtractAllConfigs (config_types request)]\<rparr>)"
  using assms by (simp add: extract_gam_config_def Let_def)

lemma extract_gam_config_ok:
  assumes "result = extract_all_configs ev (config_types request)"
    and "er_success result \<or> er_data result \<noteq> []"
    and "failed = filter (\<lambda>t. type_value ev t \<notin> set (map fst (er_data result))) (config_types request)"
  shows "\<exists>response w' db_config.
           extract_gam_config ev request w = (Inr response, w') \<and>
           xr_success response \<and>
           xr_total_items response = count_total_items (er_data result) \<and>
           xr_failed_types response = (if failed \<noteq> [] then Some failed else None) \<and>
           xr_configuration_id response = cfg_id db_config \<and>
           configurations (db w') = configurations (db w) @ [db_config] \<and>
           cfg_config_type db_config = single_or_other (config_types request)"
  using assms by (auto simp add: extract_gam_config_def Let_def add_configuration_def)

lemma extract_gam_config_cases:
  assumes "extract_gam_config ev request w = (Inr response, w')"
  shows "er_success (extract_all_configs ev (config_types request)) \<or>
         er_data (extract_all_configs ev (config_types request)) \<noteq> []"
  using assms by (auto simp add: extract_gam_config_def Let_def split: if_splits)

subsection \<open>The store stays well-formed\<close>

text \<open>
  Both handlers keep a well-formed store well-formed, so \<open>wf_store\<close> holds of every
  store reached from the empty one.
\<close>

lemma add_analysis_configurations [simp]:
  "configurations (add_analysis a d) = configurations d"
  "next_configuration_id (add_analysis a d) = next_configuration_id d"
  by (simp_all add: add_analysis_def)

lemma wf_store_fresh:
  assumes "wf_store d"
  shows "next_analysis_id d \<notin> sa_id ` set (analyses d)"
    and "next_configuration_id d \<notin> cfg_id ` set (configurations d)"
proof -
  from assms have a: "\<forall>x \<in> set (analyses d). sa_id x < next_analysis_id d"
    and c: "\<forall>x \<in> set (configurations d). cfg_id x < next_configuration_id d"
    by (simp_all add: wf_store_def list_all_iff)
  from a show "next_analysis_id d \<notin> sa_id ` set (analyses d)" by force
  from c show "next_configuration_id d \<notin> cfg_id ` set (configurations d)" by force
qed

lemma wf_store_add_analysis:
  assumes "wf_store d" and "sa_configuration_id a \<in> cfg_id ` set (configurations d)"
  shows "wf_store (add_analysis a d)"
proof -
  let ?a = "a\<lparr>sa_id := next_analysis_id d\<rparr>"
  have 1: "distinct (map sa_id (analyses d @ [?a]))"
    using assms(1) wf_store_fresh(1) [OF assms(1)] by (simp add: wf_store_def)
  have 2: "list_all (\<lambda>x. sa_configuration_id x \<in> set (map cfg_id (configurations d))) (analyses d @ [?a])"
    using assms by (simp add: wf_store_def)
  have 3: "list_all (\<lambda>x. sa_id x < next_analysis_id d + 1) (analyses d @ [?a])"
    using assms(1) by (simp add: wf_store_def list_all_iff) force
  from assms(1) have 4: "distinct (map cfg_id (configurations d))"
    and 5: "list_all (\<lambda>c. cfg_id c < next_configuration_id d) (configurations d)"
    by (simp_all add: wf_store_def)
  show ?thesis
    unfolding wf_store_def add_analysis_def using 1 2 3 4 5 by simp
qed

lemma wf_store_add_findings:
  assumes "wf_store d" and "cid \<in> cfg_id ` set (configurations d)"
  shows "wf_store (add_findings with_actions cid fs d)"
  using assms unfolding add_findings_def
proof (induction fs arbitrary: d)
  case Nil
  then show ?case by simp
next
  case (Cons f fs)
  have "sa_configuration_id (analysis_row with_actions cid f) = cid"
    by (simp add: analysis_row_def)
  with Cons.prems have "wf_store (add_analysis (analysis_row with_actions cid f) d)"
    by (intro wf_store_add_analysis) simp_all
  moreover have "cid \<in> cfg_id ` set (configurations (add_analysis (analysis_row with_actions cid f) d))"
    using Cons.prems(2) by simp
  ultimately show ?case using Cons.IH by simp
qed

lemma wf_store_add_configuration:
  assumes "wf_store d" and "add_configuration c d = (c', d')"
  shows "wf_store d' \<and> cfg_id c' \<in> cfg_id ` set (configurations d')"
proof -
  let ?c = "c\<lparr>cfg_id := next_configuration_id d\<rparr>"
  from assms(2) have c': "c' = ?c"
    and d': "d' = d\<lparr>configurations := configurations d @ [?c],
                    next_configuration_id := next_configuration_id d + 1\<rparr>"
    by (auto simp add: add_configuration_def Let_def)
  have 1: "distinct (map cfg_id (configurations d @ [?c]))"
    using assms(1) wf_store_fresh(2) [OF assms(1)] by (simp add: wf_store_def)
  have 2: "list_all (\<lambda>x. sa_configuration_id x \<in> set (map cfg_id (configurations d @ [?c]))) (analyses d)"
    using assms(1) by (simp add: wf_store_def list_all_iff)
  have 3: "list_all (\<lambda>x. cfg_id x < next_configuration_id d + 1) (configurations d @ [?c])"
    using assms(1) by (simp add: wf_store_def list_all_iff) force
  from assms(1) have 4: "distinct (map sa_id (analyses d))"
    and 5: "list_all (\<lambda>a. sa_id a < next_analysis_id d) (analyses d)"
    by (simp_all add: wf_store_def)
  have "wf_store d'"
    unfolding wf_store_def d' using 1 2 3 4 5 by simp
  moreover have "cfg_id c' \<in> cfg_id ` set (configurations d')"
    by (simp add: c' d')
  ultimately show ?thesis ..
qed

lemma wf_store_rescan:
  assumes "wf_store (db w)"
  shows "wf_store (db (snd (rescan ev request finding config w)))"
proof (cases "auto_rescan request \<and> config_types_to_extract (action_id request) \<noteq> [] \<and>
    er_success (extract_all_configs ev (config_types_to_extract (action_id request)))")
  case False
  then show ?thesis using assms by (auto simp: rescan_def Let_def)
next
  case True
  let ?cts = "config_types_to_extract (action_id request)"
  let ?c = "\<lparr>cfg_id = 0,
             cfg_name = Some (''Post-Remediation: '' @ str_opt (cfg_name config)),
             cfg_description = ''Re-extracted after fixing: '' @ sa_title finding,
             cfg_config_type = single_or_other ?cts,
             cfg_config_data = er_data (extract_all_configs ev ?cts),
             cfg_is_template = False,
             cfg_extraction_errors = None\<rparr>"
  obtain c' d' where a: "add_configuration ?c (db w) = (c', d')" by (cases "add_configuration ?c (db w)")
  from wf_store_add_configuration [OF assms a]
  have "wf_store (add_findings False (cfg_id c')
          (analyze_configuration ev (cfg_config_data c') (cfg_config_type c')) d')"
    by (simp add: wf_store_add_findings)
  then show ?thesis using True a by (simp add: rescan_def Let_def)
qed

lemma wf_store_execute_remediation:
  assumes "wf_store (db w)"
  shows "wf_store (db (snd (execute_remediation ev request w)))"
proof (cases "lookup (db w) (finding_id request)")
  case (Inl e)
  then show ?thesis using assms by (simp add: execute_lookup_error)
next
  case (Inr p)
  obtain finding config where p: "p = (finding, config)" by (cases p)
  show ?thesis
  proof (cases "gam_command request")
    case (Inl e)
    then show ?thesis using assms Inr p by (simp add: execute_command_error)
  next
    case c: (Inr args)
    let ?w1 = "w\<lparr>gam_calls := gam_calls w @ [RunGamCommand args]\<rparr>"
    show ?thesis
    proof (cases "gr_success (run_gam_command ev args)")
      case False
      then show ?thesis using assms Inr p c by (simp add: execute_remediation_def Let_def)
    next
      case True
      obtain r w2 where r: "rescan ev request finding config ?w1 = (r, w2)"
        by (cases "rescan ev request finding config ?w1")
      obtain a b c' where "r = (a, b, c')" by (cases r)
      with r have r': "rescan ev request finding config ?w1 = ((a, b, c'), w2)" by simp
      have "wf_store (db (snd (rescan ev request finding config ?w1)))"
        using assms by (intro wf_store_rescan) simp
      with r' have "wf_store (db w2)" by simp
      with execute_command_ok [OF Inr [unfolded p] c True r'] show ?thesis by simp
    qed
  qed
qed

lemma wf_store_insert_with_findings:
  assumes "wf_store d" and "cfg_id c' = next_configuration_id d"
  shows "wf_store (add_findings with_actions (next_configuration_id d) fs
           (d\<lparr>configurations := configurations d @ [c'],
              next_configuration_id := next_configuration_id d + 1\<rparr>))"
proof -
  have "add_configuration c' d =
          (c', d\<lparr>configurations := configurations d @ [c'],
                 next_configuration_id := next_configuration_id d + 1\<rparr>)"
    using assms(2) by (simp add: add_configuration_def Let_def)
  from wf_store_add_configuration [OF assms(1) this] assms(2)
  show ?thesis by (simp add: wf_store_add_findings)
qed

lemma wf_store_extract_gam_config:
  assumes "wf_store (db w)"
  shows "wf_store (db (snd (extract_gam_config ev request w)))"
proof (cases "\<not> er_success (extract_all_configs ev (config_types request)) \<and>
    er_data (extract_all_configs ev (config_types request)) = []")
  case True
  then show ?thesis using assms by (simp add: extract_gam_config_def Let_def)
next
  case False
  then show ?thesis using assms
    by (simp add: extract_gam_config_def Let_def add_configuration_def
        wf_store_insert_with_findings)
qed

lemma wf_store_empty:
  "wf_store \<lparr>configurations = [], analyses = [], next_configuration_id = 1, next_analysis_id = 1\<rparr>"
  by (simp add: wf_store_def)

subsection \<open>The scenario\<close>

lemma scenario_lookup:
  "lookup (db scenario_world) 7 = Inr (scenario_finding, scenario_configuration)"
  by (simp add: lookup_def scenario_world_def scalar_one_or_none_def scenario_finding_def
      scenario_configuration_def)

lemma scenario_command:
  "gam_command scenario_request =
     Inr [PStr ''update'', PStr ''user'', PStr ''a@x.com'', PStr ''enforcein2sv'', PStr ''true'']"
  by (simp add: gam_command_def scenario_request_def py_get_def)

lemma scenario_wf: "wf_store (db scenario_world)"
  by (simp add: wf_store_def scenario_world_def scenario_finding_def scenario_configuration_def)

section \<open>The claims\<close>

text \<open>
  Claim C1. Whenever the lookup and the validation of a remediation request pass and the
  GAM command reports failure, \<open>execute_remediation\<close> returns an outcome with
  \<^verbatim>\<open>success=False\<close> and the failure message, whatever \<^verbatim>\<open>auto_rescan\<close> says: the new
  configuration identity and the score after are \<^verbatim>\<open>None\<close>, \<^verbatim>\<open>finding_resolved\<close> is false,
  the store is the one before the call, and the only call to the GAM service is the
  command itself, so no extraction is run.
\<close>

theorem command_failure_is_terminal:
  assumes "lookup (db w) (finding_id request) = Inr (finding, config)"
    and "gam_command request = Inr args"
    and "\<not> gr_success (run_gam_command ev args)"
  shows "\<exists>outcome w'. execute_remediation ev request w = (Inr outcome, w') \<and>
           \<not> rr_success outcome \<and>
           rr_message outcome = ''Remediation failed: '' @ str_opt (gr_error (run_gam_command ev args)) \<and>
           rr_gam_output outcome = gr_error (run_gam_command ev args) \<and>
           rr_new_configuration_id outcome = None \<and>
           rr_security_score_after outcome = None \<and>
           \<not> rr_finding_resolved outcome \<and>
           db w' = db w \<and>
           gam_calls w' = gam_calls w @ [RunGamCommand args]"
  using assms by (simp add: execute_remediation_def Let_def)

theorem command_failure_is_terminal_witness:
  "\<exists>outcome w'.
     execute_remediation (scenario_env command_failed extraction_ok []) scenario_request scenario_world
       = (Inr outcome, w') \<and>
     \<not> rr_success outcome \<and> rr_message outcome = ''Remediation failed: exit 1'' \<and>
     rr_gam_output outcome = Some ''exit 1'' \<and>
     rr_new_configuration_id outcome = None \<and> rr_security_score_after outcome = None \<and>
     \<not> rr_finding_resolved outcome \<and> db w' = db scenario_world \<and>
     gam_calls w' = [RunGamCommand [PStr ''update'', PStr ''user'', PStr ''a@x.com'',
                                    PStr ''enforcein2sv'', PStr ''true'']]"
proof -
  have l: "lookup (db scenario_world) (finding_id scenario_request)
             = Inr (scenario_finding, scenario_configuration)"
    using scenario_lookup by (simp add: scenario_request_def)
  have f: "\<not> gr_success (run_gam_command (scenario_env command_failed extraction_ok [])
              [PStr ''update'', PStr ''user'', PStr ''a@x.com'', PStr ''enforcein2sv'', PStr ''true''])"
    by (simp add: scenario_env_def command_failed_def)
  show ?thesis
    using command_failure_is_terminal [OF l scenario_command f]
    by (simp add: scenario_env_def command_failed_def str_opt_def scenario_world_def)
qed

text \<open>
  Claim C2. A remediation request whose finding is not in the store, or whose action is
  neither of the two known ones, ends in an error and leaves the store and the calls to
  the GAM service as they were: the command is never run. The error is the 404 "Security
  finding not found" when the finding is absent, and the 400 "Unknown action_id" when
  the finding is present in a well-formed store.
\<close>

theorem lookup_or_action_failure_aborts:
  assumes "finding_id request \<notin> sa_id ` set (analyses (db w)) \<or>
           action_id request \<notin> {''enforce_2fa'', ''revoke_oauth_token''}"
  shows "(\<exists>e. execute_remediation ev request w = (Inl e, w)) \<and>
         (finding_id request \<notin> sa_id ` set (analyses (db w)) \<longrightarrow>
            execute_remediation ev request w =
              (Inl (HTTPException 404 ''Security finding not found''), w)) \<and>
         (wf_store (db w) \<and> finding_id request \<in> sa_id ` set (analyses (db w)) \<longrightarrow>
            execute_remediation ev request w =
              (Inl (HTTPException 400 (''Unknown action_id: '' @ action_id request)), w))"
proof (cases "finding_id request \<in> sa_id ` set (analyses (db w))")
  case False
  then show ?thesis by (simp add: lookup_absent execute_lookup_error)
next
  case True
  with assms have "action_id request \<notin> {''enforce_2fa'', ''revoke_oauth_token''}" by blast
  then have c: "gam_command request = Inl (HTTPException 400 (''Unknown action_id: '' @ action_id request))"
    by (simp add: gam_command_def)
  from execute_without_command [OF c] have 1: "\<exists>e. execute_remediation ev request w = (Inl e, w)"
    by blast
  have "execute_remediation ev request w =
          (Inl (HTTPException 400 (''Unknown action_id: '' @ action_id request)), w)"
    if "wf_store (db w)"
  proof -
    from lookup_present [OF that True] obtain finding config
      where "lookup (db w) (finding_id request) = Inr (finding, config)" by blast
    from execute_command_error [OF this c] show ?thesis .
  qed
  with 1 True show ?thesis by blast
qed

theorem lookup_or_action_failure_aborts_witness:
  "execute_remediation (scenario_env command_ok extraction_ok [])
     \<lparr>finding_id = 7, action_id = ''delete_user'', parameters = None, auto_rescan = True\<rparr>
     scenario_world
   = (Inl (HTTPException 400 ''Unknown action_id: delete_user''), scenario_world) \<and>
   execute_remediation (scenario_env command_ok extraction_ok [])
     \<lparr>finding_id = 9, action_id = ''delete_user'', parameters = None, auto_rescan = True\<rparr>
     scenario_world
   = (Inl (HTTPException 404 ''Security finding not found''), scenario_world)"
proof -
  have ids: "sa_id ` set (analyses (db scenario_world)) = {7}"
    by (simp add: scenario_world_def scenario_finding_def)
  show ?thesis
    using lookup_or_action_failure_aborts [of
        "\<lparr>finding_id = 7, action_id = ''delete_user'', parameters = None, auto_rescan = True\<rparr>"
        scenario_world "scenario_env command_ok extraction_ok []"]
      lookup_or_action_failure_aborts [of
        "\<lparr>finding_id = 9, action_id = ''delete_user'', parameters = None, auto_rescan = True\<rparr>"
        scenario_world "scenario_env command_ok extraction_ok []"]
      scenario_wf
    by (simp add: ids)
qed

text \<open>
  Claim C3. When \<^verbatim>\<open>auto_rescan\<close> is set, the command succeeded and the extraction of the
  rescan succeeded, \<^verbatim>\<open>finding_resolved\<close> is true exactly when no finding of the new analysis
  has both the title of the original finding and affected settings equal (\<^verbatim>\<open>==\<close>) to its
  affected settings. A new finding with the same title and other settings does not
  count, as the instance after the theorem shows.
\<close>

theorem finding_resolved_iff_no_exact_match:
  assumes "lookup (db w) (finding_id request) = Inr (finding, config)"
    and "gam_command request = Inr args"
    and "gr_success (run_gam_command ev args)"
    and "auto_rescan request"
    and "cts = config_types_to_extract (action_id request)"
    and "er_success (extract_all_configs ev cts)"
    and "new_findings = analyze_configuration ev (er_data (extract_all_configs ev cts)) (single_or_other cts)"
  shows "\<exists>outcome w'. execute_remediation ev request w = (Inr outcome, w') \<and>
           (rr_finding_resolved outcome \<longleftrightarrow>
              \<not> (\<exists>f \<in> set new_findings.
                    fd_title f = sa_title finding \<and>
                    py_eq (py_get (fd_affected_settings f)) (sa_affected_settings finding)))"
proof -
  from known_action_types [OF assms(2)] assms(5) have "cts \<noteq> []" by auto
  from rescan_extraction_ok [OF assms(4,5) this assms(6,7)]
  obtain w' where "rescan ev request finding config (w\<lparr>gam_calls := gam_calls w @ [RunGamCommand args]\<rparr>)
      = ((Some (next_configuration_id (db (w\<lparr>gam_calls := gam_calls w @ [RunGamCommand args]\<rparr>))),
          Some (get_security_score ev (map fd_severity new_findings)),
          \<not> still_present finding new_findings), w')"
    by blast
  from execute_command_ok [OF assms(1,2,3) this]
  show ?thesis by (simp add: still_present_def list_ex_iff)
qed

theorem finding_resolved_iff_no_exact_match_witness:
  "\<exists>outcome w'.
     execute_remediation
       (scenario_env command_ok extraction_ok
          [scenario_draft (Some (PDict [(''user'', PStr ''b@x.com'')]))])
       scenario_request scenario_world = (Inr outcome, w') \<and>
     rr_finding_resolved outcome"
proof -
  let ?ev = "scenario_env command_ok extraction_ok
               [scenario_draft (Some (PDict [(''user'', PStr ''b@x.com'')]))]"
  have l: "lookup (db scenario_world) (finding_id scenario_request)
             = Inr (scenario_finding, scenario_configuration)"
    using scenario_lookup by (simp add: scenario_request_def)
  have ok: "gr_success (run_gam_command ?ev
              [PStr ''update'', PStr ''user'', PStr ''a@x.com'', PStr ''enforcein2sv'', PStr ''true''])"
    by (simp add: scenario_env_def command_ok_def)
  have ar: "auto_rescan scenario_request" by (simp add: scenario_request_def)
  have es: "er_success (extract_all_configs ?ev (config_types_to_extract (action_id scenario_request)))"
    by (simp add: scenario_env_def extraction_ok_def)
  show ?thesis
    using finding_resolved_iff_no_exact_match [OF l scenario_command ok ar refl es refl]
    by (simp add: scenario_env_def scenario_draft_def scenario_finding_def py_get_def)
qed

text \<open>
  Claim C4. When the extraction reports \<^verbatim>\<open>success=False\<close> and its data is empty, the extract
  handler raises the error with status 500 whose detail is the fixed prefix followed
  by the printed list of collected errors, and neither table of the store changes.
\<close>

theorem total_extraction_failure_is_500:
  assumes "result = extract_all_configs ev (config_types request)"
    and "\<not> er_success result" and "er_data result = []"
    and "errors = (case er_errors result of None \<Rightarrow> [] | Some es \<Rightarrow> es)"
  shows "\<exists>w'. extract_gam_config ev request w =
                (Inl (HTTPException 500
                   (''Failed to extract configurations: '' @ py_repr ev (PList errors))), w') \<and>
              configurations (db w') = configurations (db w) \<and>
              analyses (db w') = analyses (db w)"
  using extract_gam_config_total_failure [OF assms(1,2,3), of w] assms(4) by simp

theorem total_extraction_failure_is_500_witness:
  "\<exists>w'. extract_gam_config (scenario_env command_ok extraction_failed [])
           \<lparr>config_types = [USER], save_as_template = False, template_name = None\<rparr> scenario_world
         = (Inl (HTTPException 500 ''Failed to extract configurations: [...]''), w') \<and>
        configurations (db w') = [scenario_configuration] \<and>
        analyses (db w') = [scenario_finding]"
proof -
  let ?ev = "scenario_env command_ok extraction_failed []"
  let ?rq = "\<lparr>config_types = [USER], save_as_template = False, template_name = None\<rparr>"
  have r: "extraction_failed = extract_all_configs ?ev (config_types ?rq)"
    by (simp add: scenario_env_def)
  have f: "\<not> er_success extraction_failed" and e: "er_data extraction_failed = []"
    by (simp_all add: extraction_failed_def)
  have errs: "[PDict [(''type'', PStr ''user''), (''error'', PStr ''exit 1'')]] =
                (case er_errors extraction_failed of None \<Rightarrow> [] | Some es \<Rightarrow> es)"
    by (simp add: extraction_failed_def)
  have repr: "py_repr ?ev v = ''[...]''" for v
    by (simp add: scenario_env_def)
  have tables: "configurations (db scenario_world) = [scenario_configuration]"
    "analyses (db scenario_world) = [scenario_finding]"
    by (simp_all add: scenario_world_def)
  show ?thesis
    using total_extraction_failure_is_500 [OF r f e errs, of scenario_world]
    by (simp add: repr tables)
qed

text \<open>
  Claim C5. When the data of the extraction holds the key of at least one requested
  category, the extract handler answers with \<^verbatim>\<open>success=True\<close>, and \<^verbatim>\<open>failed_types\<close> is the
  set of requested categories whose key is not in the data: \<^verbatim>\<open>None\<close> when that set is
  empty, and a list with exactly those members otherwise.
\<close>

theorem partial_success_reports_failed_types:
  assumes "result = extract_all_configs ev (config_types request)"
    and "\<exists>t \<in> set (config_types request). type_value ev t \<in> fst ` set (er_data result)"
    and "missing = {t \<in> set (config_types request). type_value ev t \<notin> fst ` set (er_data result)}"
  shows "\<exists>response w'. extract_gam_config ev request w = (Inr response, w') \<and>
           xr_success response \<and>
           (if missing = {} then xr_failed_types response = None
            else \<exists>failed. xr_failed_types response = Some failed \<and> set failed = missing)"
proof -
  define failed where
    "failed = filter (\<lambda>t. type_value ev t \<notin> set (map fst (er_data result))) (config_types request)"
  from assms(2) have "er_success result \<or> er_data result \<noteq> []" by auto
  from extract_gam_config_ok [OF assms(1) this failed_def, of w]
  obtain response w' where r: "extract_gam_config ev request w = (Inr response, w')"
      "xr_success response"
      "xr_failed_types response = (if failed \<noteq> [] then Some failed else None)"
    by blast
  have "set failed = missing" by (auto simp: failed_def assms(3))
  then have "(failed = []) = (missing = {})" by (metis set_empty)
  with r \<open>set failed = missing\<close> show ?thesis by auto
qed

theorem partial_success_reports_failed_types_witness:
  "\<exists>response w'.
     extract_gam_config (scenario_env command_ok extraction_ok [])
       \<lparr>config_types = [USER, OAUTH_TOKENS], save_as_template = False, template_name = None\<rparr>
       scenario_world = (Inr response, w') \<and>
     xr_success response \<and>
     (\<exists>failed. xr_failed_types response = Some failed \<and> set failed = {OAUTH_TOKENS})"
proof -
  let ?ev = "scenario_env command_ok extraction_ok []"
  let ?rq = "\<lparr>config_types = [USER, OAUTH_TOKENS], save_as_template = False, template_name = None\<rparr>"
  have keys: "fst ` set (er_data extraction_ok) = {''user''}"
    by (simp add: extraction_ok_def)
  have r: "extraction_ok = extract_all_configs ?ev (config_types ?rq)"
    by (simp add: scenario_env_def)
  have one: "\<exists>t \<in> set (config_types ?rq). type_value ?ev t \<in> fst ` set (er_data extraction_ok)"
    by (simp add: keys scenario_env_def scenario_value_def)
  have m: "{OAUTH_TOKENS} = {t \<in> set (config_types ?rq). type_value ?ev t \<notin> fst ` set (er_data extraction_ok)}"
    by (auto simp add: keys scenario_env_def scenario_value_def)
  show ?thesis
    using partial_success_reports_failed_types [OF r one m, of scenario_world]
    by simp
qed

text \<open>
  Claim C6. (as amended) A remediation request with a known action whose parameters
  mapping lacks a required parameter (\<^verbatim>\<open>user_email\<close> for \<^verbatim>\<open>enforce_2fa\<close>; \<^verbatim>\<open>user\<close> or
  \<^verbatim>\<open>client_id\<close> for \<^verbatim>\<open>revoke_oauth_token\<close>) ends in an error and the command is never run;
  when the finding and the configuration that owns it are found, the error is the 400
  naming the missing parameter. Without that condition the statement fails: the lookup
  comes first, and a request for a finding that is not stored is answered with 404, as
  the counterexample shows.
\<close>

theorem missing_parameter_is_rejected:
  assumes "parameters request = Some ps"
    and "action_id request = ''enforce_2fa'' \<and> ps ''user_email'' = None \<or>
         action_id request = ''revoke_oauth_token'' \<and> (ps ''user'' = None \<or> ps ''client_id'' = None)"
    and "detail = (if action_id request = ''enforce_2fa'' then ''user_email parameter required''
                   else ''user and client_id parameters required'')"
  shows "(\<exists>e. execute_remediation ev request w = (Inl e, w)) \<and>
         (\<forall>finding config. lookup (db w) (finding_id request) = Inr (finding, config) \<longrightarrow>
            execute_remediation ev request w = (Inl (HTTPException 400 detail), w))"
proof -
  have c: "gam_command request = Inl (HTTPException 400 detail)"
    using assms by (auto simp: gam_command_def py_get_def)
  from execute_without_command [OF c] have "\<exists>e. execute_remediation ev request w = (Inl e, w)"
    by blast
  moreover have "execute_remediation ev request w = (Inl (HTTPException 400 detail), w)"
    if "lookup (db w) (finding_id request) = Inr (finding, config)" for finding config
    using execute_command_error [OF that c] .
  ultimately show ?thesis by blast
qed

theorem missing_parameter_is_rejected_witness:
  "execute_remediation (scenario_env command_ok extraction_ok [])
     (scenario_request\<lparr>parameters := Some Map.empty\<rparr>) scenario_world
   = (Inl (HTTPException 400 ''user_email parameter required''), scenario_world)"
proof -
  let ?rq = "scenario_request\<lparr>parameters := Some Map.empty\<rparr>"
  have p: "parameters ?rq = Some Map.empty" by simp
  have a: "action_id ?rq = ''enforce_2fa'' \<and> Map.empty ''user_email'' = None \<or>
           action_id ?rq = ''revoke_oauth_token'' \<and>
             (Map.empty ''user'' = None \<or> Map.empty ''client_id'' = None)"
    by (simp add: scenario_request_def)
  have l: "lookup (db scenario_world) (finding_id ?rq) = Inr (scenario_finding, scenario_configuration)"
    using scenario_lookup by (simp add: scenario_request_def)
  show ?thesis
    using missing_parameter_is_rejected [OF p a refl, of "scenario_env command_ok extraction_ok []" scenario_world] l
    by (simp add: scenario_request_def)
qed

theorem missing_parameter_not_found_counterexample:
  "execute_remediation (scenario_env command_ok extraction_ok [])
     \<lparr>finding_id = 9, action_id = ''enforce_2fa'', parameters = Some Map.empty, auto_rescan = True\<rparr>
     scenario_world
   = (Inl (HTTPException 404 ''Security finding not found''), scenario_world) \<and>
   fst (execute_remediation (scenario_env command_ok extraction_ok [])
     \<lparr>finding_id = 9, action_id = ''enforce_2fa'', parameters = Some Map.empty, auto_rescan = True\<rparr>
     scenario_world)
   \<noteq> Inl (HTTPException 400 ''user_email parameter required'')"
  by (simp add: execute_remediation_def lookup_def scalar_one_or_none_def scenario_world_def
      scenario_finding_def)

text \<open>
  Claim C7. The \<^verbatim>\<open>total_items\<close> of the extract response is the sum, over the categories of
  the extracted data, of the length of the payload when it is a list and 1 otherwise:
  the left-to-right sum of the handler equals the \<open>item_count\<close> of the specification.
  The mapping \<^verbatim>\<open>{A: [1,2,3], B: "x"}\<close> counts 4, an empty list adds 0, and the empty mapping
  counts 0.
\<close>

theorem total_items_is_item_count:
  "count_total_items result_data = item_count result_data \<and>
   (\<forall>response w'. extract_gam_config ev request w = (Inr response, w') \<longrightarrow>
      xr_total_items response = item_count (er_data (extract_all_configs ev (config_types request)))) \<and>
   count_total_items [(''A'', PList [PInt 1, PInt 2, PInt 3]), (''B'', PStr ''x'')] = 4 \<and>
   count_total_items ((category, PList []) # result_data) = count_total_items result_data \<and>
   count_total_items [] = 0"
proof -
  have "xr_total_items response = item_count (er_data (extract_all_configs ev (config_types request)))"
    if r: "extract_gam_config ev request w = (Inr response, w')" for response w'
  proof -
    from extract_gam_config_ok [OF refl extract_gam_config_cases [OF r] refl, of w] r
    show ?thesis by (auto simp: count_is_item_count)
  qed
  then show ?thesis
    by (simp add: count_is_item_count)
qed

theorem total_items_is_item_count_witness:
  "\<exists>response w'.
     extract_gam_config
       (scenario_env command_ok
          \<lparr>er_success = True,
           er_data = [(''A'', PList [PInt 1, PInt 2, PInt 3]), (''B'', PStr ''x'')],
           er_errors = None\<rparr> [])
       \<lparr>config_types = [MEMBER ''A'', MEMBER ''B''], save_as_template = False, template_name = None\<rparr>
       scenario_world = (Inr response, w') \<and>
     xr_total_items response = 4"
proof -
  let ?x = "\<lparr>er_success = True,
             er_data = [(''A'', PList [PInt 1, PInt 2, PInt 3]), (''B'', PStr ''x'')],
             er_errors = None\<rparr>"
  let ?ev = "scenario_env command_ok ?x []"
  let ?rq = "\<lparr>config_types = [MEMBER ''A'', MEMBER ''B''], save_as_template = False,
              template_name = None\<rparr>"
  have x: "extract_all_configs ?ev cts = ?x" for cts
    by (simp add: scenario_env_def)
  have "er_success (extract_all_configs ?ev (config_types ?rq)) \<or>
        er_data (extract_all_configs ?ev (config_types ?rq)) \<noteq> []"
    by (simp add: x)
  from extract_gam_config_ok [OF refl this refl, of scenario_world]
  obtain response w' where r: "extract_gam_config ?ev ?rq scenario_world = (Inr response, w')"
    by blast
  have "xr_total_items response = item_count (er_data (extract_all_configs ?ev (config_types ?rq)))"
    using total_items_is_item_count [where ev = ?ev and request = ?rq and w = scenario_world] r
    by blast
  also have "\<dots> = 4" by (simp add: x)
  finally show ?thesis using r by blast
qed

text \<open>
  Claim C8. The configuration persisted by a successful extraction, and the one persisted
  by the rescan after a remediation, has as \<^verbatim>\<open>config_type\<close> the requested category when
  exactly one was requested and \<open>OTHER\<close> when the number of requested categories is not
  one. For the rescan the requested categories are those the action maps to.
\<close>

theorem persisted_config_type:
  "(\<forall>response w'. extract_gam_config ev request w = (Inr response, w') \<longrightarrow>
      (\<exists>c. configurations (db w') = configurations (db w) @ [c] \<and>
           cfg_id c = xr_configuration_id response \<and>
           (\<forall>t. config_types request = [t] \<longrightarrow> cfg_config_type c = t) \<and>
           (length (config_types request) \<noteq> 1 \<longrightarrow> cfg_config_type c = OTHER))) \<and>
   (\<forall>outcome w' i. execute_remediation ev rrequest w = (Inr outcome, w') \<and>
        rr_new_configuration_id outcome = Some i \<longrightarrow>
      (\<exists>c. configurations (db w') = configurations (db w) @ [c] \<and>
           cfg_id c = i \<and>
           (\<forall>t. config_types_to_extract (action_id rrequest) = [t] \<longrightarrow> cfg_config_type c = t) \<and>
           (length (config_types_to_extract (action_id rrequest)) \<noteq> 1 \<longrightarrow> cfg_config_type c = OTHER)))"
proof (intro conjI allI impI)
  fix response w'
  assume r: "extract_gam_config ev request w = (Inr response, w')"
  from extract_gam_config_ok [OF refl extract_gam_config_cases [OF r] refl, of w] r
  obtain c where "configurations (db w') = configurations (db w) @ [c]"
    "cfg_id c = xr_configuration_id response"
    "cfg_config_type c = single_or_other (config_types request)"
    by auto
  then show "\<exists>c. configurations (db w') = configurations (db w) @ [c] \<and>
           cfg_id c = xr_configuration_id response \<and>
           (\<forall>t. config_types request = [t] \<longrightarrow> cfg_config_type c = t) \<and>
           (length (config_types request) \<noteq> 1 \<longrightarrow> cfg_config_type c = OTHER)"
    by (auto simp: single_or_other_def)
next
  fix outcome w' i
  let ?cts = "config_types_to_extract (action_id rrequest)"
  assume a: "execute_remediation ev rrequest w = (Inr outcome, w') \<and>
        rr_new_configuration_id outcome = Some i"
  then obtain finding config where l: "lookup (db w) (finding_id rrequest) = Inr (finding, config)"
    by (cases "lookup (db w) (finding_id rrequest)") (auto simp: execute_lookup_error)
  from a l obtain args where c: "gam_command rrequest = Inr args"
    by (cases "gam_command rrequest") (auto simp: execute_command_error)
  let ?w1 = "w\<lparr>gam_calls := gam_calls w @ [RunGamCommand args]\<rparr>"
  have ok: "gr_success (run_gam_command ev args)"
    using a l c by (auto simp: execute_remediation_def Let_def split: if_splits)
  have ar: "auto_rescan rrequest"
  proof (rule ccontr)
    assume "\<not> auto_rescan rrequest"
    from execute_command_ok [OF l c ok rescan_not_requested [OF this]] a show False by simp
  qed
  have es: "er_success (extract_all_configs ev ?cts)"
  proof (rule ccontr)
    assume "\<not> er_success (extract_all_configs ev ?cts)"
    from rescan_extraction_failed [OF ar this, of finding config ?w1]
    obtain w2 where "rescan ev rrequest finding config ?w1 = ((None, None, False), w2)" by blast
    from execute_command_ok [OF l c ok this] a show False by simp
  qed
  from known_action_types [OF c] have ne: "?cts \<noteq> []" by auto
  from rescan_extraction_ok [OF ar refl ne es refl, of finding config ?w1]
  obtain w2 new_config where
    r: "rescan ev rrequest finding config ?w1 =
          ((Some (next_configuration_id (db ?w1)),
            Some (get_security_score ev (map fd_severity
              (analyze_configuration ev (er_data (extract_all_configs ev ?cts)) (single_or_other ?cts)))),
            \<not> still_present finding
              (analyze_configuration ev (er_data (extract_all_configs ev ?cts)) (single_or_other ?cts))), w2)"
    and n: "configurations (db w2) = configurations (db ?w1) @ [new_config]"
      "cfg_id new_config = next_configuration_id (db ?w1)"
      "cfg_config_type new_config = single_or_other ?cts"
    by blast
  from execute_command_ok [OF l c ok r] a have "w' = w2" "i = next_configuration_id (db ?w1)"
    by auto
  with n show "\<exists>c. configurations (db w') = configurations (db w) @ [c] \<and>
           cfg_id c = i \<and>
           (\<forall>t. ?cts = [t] \<longrightarrow> cfg_config_type c = t) \<and>
           (length ?cts \<noteq> 1 \<longrightarrow> cfg_config_type c = OTHER)"
    by (auto simp: single_or_other_def)
qed

theorem persisted_config_type_witness:
  "(\<exists>response w' c.
      extract_gam_config (scenario_env command_ok extraction_ok [])
        \<lparr>config_types = [USER], save_as_template = False, template_name = None\<rparr>
        scenario_world = (Inr response, w') \<and>
      configurations (db w') = configurations (db scenario_world) @ [c] \<and>
      cfg_id c = xr_configuration_id response \<and> cfg_config_type c = USER) \<and>
   (\<exists>response w' c.
      extract_gam_config (scenario_env command_ok extraction_ok [])
        \<lparr>config_types = [USER, OAUTH_TOKENS], save_as_template = False, template_name = None\<rparr>
        scenario_world = (Inr response, w') \<and>
      configurations (db w') = configurations (db scenario_world) @ [c] \<and>
      cfg_id c = xr_configuration_id response \<and> cfg_config_type c = OTHER) \<and>
   (\<exists>outcome w' c.
      execute_remediation (scenario_env command_ok extraction_ok []) scenario_request
        scenario_world = (Inr outcome, w') \<and>
      rr_new_configuration_id outcome = Some 4 \<and>
      configurations (db w') = configurations (db scenario_world) @ [c] \<and>
      cfg_id c = 4 \<and> cfg_config_type c = USER)"
proof -
  let ?ev = "scenario_env command_ok extraction_ok []"
  let ?one = "\<lparr>config_types = [USER], save_as_template = False, template_name = None\<rparr>"
  let ?two = "\<lparr>config_types = [USER, OAUTH_TOKENS], save_as_template = False, template_name = None\<rparr>"
  have x: "er_success (extract_all_configs ?ev cts) \<or> er_data (extract_all_configs ?ev cts) \<noteq> []"
    for cts
    by (simp add: scenario_env_def extraction_ok_def)
  from extract_gam_config_ok [OF refl x refl, of ?one scenario_world]
  obtain r1 w1 where r1: "extract_gam_config ?ev ?one scenario_world = (Inr r1, w1)" by blast
  from extract_gam_config_ok [OF refl x refl, of ?two scenario_world]
  obtain r2 w2 where r2: "extract_gam_config ?ev ?two scenario_world = (Inr r2, w2)" by blast
  have l: "lookup (db scenario_world) (finding_id scenario_request)
             = Inr (scenario_finding, scenario_configuration)"
    using scenario_lookup by (simp add: scenario_request_def)
  have ok: "gr_success (run_gam_command ?ev
              [PStr ''update'', PStr ''user'', PStr ''a@x.com'', PStr ''enforcein2sv'', PStr ''true''])"
    by (simp add: scenario_env_def command_ok_def)
  have ar: "auto_rescan scenario_request" by (simp add: scenario_request_def)
  have cts: "config_types_to_extract (action_id scenario_request) = [USER]"
    by (simp add: config_types_to_extract_def scenario_request_def)
  have es: "er_success (extract_all_configs ?ev [USER])"
    by (simp add: scenario_env_def extraction_ok_def)
  let ?w1 = "scenario_world\<lparr>gam_calls := gam_calls scenario_world @
          [RunGamCommand [PStr ''update'', PStr ''user'', PStr ''a@x.com'', PStr ''enforcein2sv'',
             PStr ''true'']]\<rparr>"
  have ne: "[USER] \<noteq> []" by simp
  have n4: "next_configuration_id (db ?w1) = 4" by (simp add: scenario_world_def)
  from rescan_extraction_ok [OF ar cts [symmetric] ne es refl,
      where finding = scenario_finding and config = scenario_configuration and w = ?w1]
  obtain w3 where "rescan ?ev scenario_request scenario_finding scenario_configuration ?w1
     = ((Some (next_configuration_id (db ?w1)), Some (get_security_score ?ev (map fd_severity
            (analyze_configuration ?ev (er_data (extract_all_configs ?ev [USER])) (single_or_other [USER])))),
         \<not> still_present scenario_finding
            (analyze_configuration ?ev (er_data (extract_all_configs ?ev [USER])) (single_or_other [USER]))), w3)"
    by blast
  then have "rescan ?ev scenario_request scenario_finding scenario_configuration ?w1
     = ((Some 4, Some (get_security_score ?ev (map fd_severity
            (analyze_configuration ?ev (er_data (extract_all_configs ?ev [USER])) (single_or_other [USER])))),
         \<not> still_present scenario_finding
            (analyze_configuration ?ev (er_data (extract_all_configs ?ev [USER])) (single_or_other [USER]))), w3)"
    unfolding n4 .
  from execute_command_ok [OF l scenario_command ok this]
  obtain r3 where r3: "execute_remediation ?ev scenario_request scenario_world = (Inr r3, w3)"
    "rr_new_configuration_id r3 = Some 4"
    by simp
  note t = persisted_config_type [where ev = ?ev and w = scenario_world and request = ?one
      and rrequest = scenario_request]
  note t' = persisted_config_type [where ev = ?ev and w = scenario_world and request = ?two
      and rrequest = scenario_request]
  from t r1 have 1: "\<exists>c. configurations (db w1) = configurations (db scenario_world) @ [c] \<and>
      cfg_id c = xr_configuration_id r1 \<and> cfg_config_type c = USER"
    by fastforce
  from t' r2 have 2: "\<exists>c. configurations (db w2) = configurations (db scenario_world) @ [c] \<and>
      cfg_id c = xr_configuration_id r2 \<and> cfg_config_type c = OTHER"
    by fastforce
  from t r3 cts have 3: "\<exists>c. configurations (db w3) = configurations (db scenario_world) @ [c] \<and>
      cfg_id c = 4 \<and> cfg_config_type c = USER"
    by fastforce
  from 1 2 3 r1 r2 r3 show ?thesis by blast
qed

text \<open>
  Claim C9. For a request with a known action whose \<^verbatim>\<open>parameters\<close> is \<^verbatim>\<open>None\<close>, the
  access \<^verbatim>\<open>request.parameters.get\<close> raises \<^verbatim>\<open>AttributeError\<close>. The handler then ends in an
  error that is never the 400 response, the command is not run and the store does not
  change; whenever the lookup passes, the error that leaves the handler is that
  \<^verbatim>\<open>AttributeError\<close>.
\<close>

theorem parameters_none_raises:
  assumes "parameters request = None"
    and "action_id request = ''enforce_2fa'' \<or> action_id request = ''revoke_oauth_token''"
  shows "gam_command request = Inl (AttributeError ''get'') \<and>
         (\<exists>e. execute_remediation ev request w = (Inl e, w) \<and> (\<forall>detail. e \<noteq> HTTPException 400 detail)) \<and>
         (\<forall>finding config. lookup (db w) (finding_id request) = Inr (finding, config) \<longrightarrow>
            execute_remediation ev request w = (Inl (AttributeError ''get''), w))"
proof -
  have c: "gam_command request = Inl (AttributeError ''get'')"
    using assms by (auto simp: gam_command_def)
  from execute_without_command [OF c] obtain e
    where e: "execute_remediation ev request w = (Inl e, w)"
      "e = AttributeError ''get'' \<or> lookup (db w) (finding_id request) = Inl e"
    by blast
  from e(2) have "\<forall>detail. e \<noteq> HTTPException 400 detail"
    using lookup_error_cases [of "db w" "finding_id request" e] by auto
  moreover have "execute_remediation ev request w = (Inl (AttributeError ''get''), w)"
    if "lookup (db w) (finding_id request) = Inr (finding, config)" for finding config
    using execute_command_error [OF that c] .
  ultimately show ?thesis using c e(1) by blast
qed

theorem parameters_none_raises_witness:
  "gam_command (scenario_request\<lparr>parameters := None\<rparr>) = Inl (AttributeError ''get'') \<and>
   execute_remediation (scenario_env command_ok extraction_ok [])
     (scenario_request\<lparr>parameters := None\<rparr>) scenario_world
   = (Inl (AttributeError ''get''), scenario_world)"
proof -
  let ?rq = "scenario_request\<lparr>parameters := None\<rparr>"
  have p: "parameters ?rq = None" by simp
  have a: "action_id ?rq = ''enforce_2fa'' \<or> action_id ?rq = ''revoke_oauth_token''"
    by (simp add: scenario_request_def)
  have l: "lookup (db scenario_world) (finding_id ?rq) = Inr (scenario_finding, scenario_configuration)"
    using scenario_lookup by (simp add: scenario_request_def)
  show ?thesis
    using parameters_none_raises [OF p a, of "scenario_env command_ok extraction_ok []" scenario_world] l
    by simp
qed

text \<open>
  Claim C10. When \<^verbatim>\<open>auto_rescan\<close> is set, the command succeeded and the extraction of the
  rescan reports \<^verbatim>\<open>success=False\<close>, the handler still returns \<^verbatim>\<open>success=True\<close> with the
  message "Remediation executed successfully"; the new configuration identity and the
  score after are \<^verbatim>\<open>None\<close>, \<^verbatim>\<open>finding_resolved\<close> is false and the store is unchanged. The
  outcome is the very outcome of the same request with \<^verbatim>\<open>auto_rescan\<close> off, so nothing
  in it tells that the extraction failed.
\<close>

theorem rescan_failure_is_silent:
  assumes "lookup (db w) (finding_id request) = Inr (finding, config)"
    and "gam_command request = Inr args"
    and "gr_success (run_gam_command ev args)"
    and "auto_rescan request"
    and "\<not> er_success (extract_all_configs ev (config_types_to_extract (action_id request)))"
  shows "\<exists>outcome w'. execute_remediation ev request w = (Inr outcome, w') \<and>
           rr_success outcome \<and>
           rr_message outcome = ''Remediation executed successfully'' \<and>
           rr_new_configuration_id outcome = None \<and>
           rr_security_score_after outcome = None \<and>
           \<not> rr_finding_resolved outcome \<and>
           db w' = db w \<and>
           fst (execute_remediation ev (request\<lparr>auto_rescan := False\<rparr>) w) = Inr outcome"
proof -
  let ?w1 = "w\<lparr>gam_calls := gam_calls w @ [RunGamCommand args]\<rparr>"
  from rescan_extraction_failed [OF assms(4,5)]
  obtain w' where r: "rescan ev request finding config ?w1 = ((None, None, False), w')"
    and d: "db w' = db ?w1"
    by blast
  have off: "rescan ev (request\<lparr>auto_rescan := False\<rparr>) finding config ?w1 = ((None, None, False), ?w1)"
    by (simp add: rescan_not_requested)
  have l: "lookup (db w) (finding_id (request\<lparr>auto_rescan := False\<rparr>)) = Inr (finding, config)"
    using assms(1) by simp
  have "gam_command (request\<lparr>auto_rescan := False\<rparr>) = gam_command request"
    by (simp add: gam_command_def)
  with assms(2) have c: "gam_command (request\<lparr>auto_rescan := False\<rparr>) = Inr args"
    by simp
  show ?thesis
    using execute_command_ok [OF assms(1,2,3) r] execute_command_ok [OF l c assms(3) off] d
    by simp
qed

theorem rescan_failure_is_silent_witness:
  "\<exists>outcome w'.
     execute_remediation (scenario_env command_ok extraction_failed []) scenario_request scenario_world
       = (Inr outcome, w') \<and>
     rr_success outcome \<and> rr_message outcome = ''Remediation executed successfully'' \<and>
     rr_new_configuration_id outcome = None \<and> rr_security_score_after outcome = None \<and>
     \<not> rr_finding_resolved outcome \<and> db w' = db scenario_world"
proof -
  let ?ev = "scenario_env command_ok extraction_failed []"
  have l: "lookup (db scenario_world) (finding_id scenario_request)
             = Inr (scenario_finding, scenario_configuration)"
    using scenario_lookup by (simp add: scenario_request_def)
  have ok: "gr_success (run_gam_command ?ev
              [PStr ''update'', PStr ''user'', PStr ''a@x.com'', PStr ''enforcein2sv'', PStr ''true''])"
    by (simp add: scenario_env_def command_ok_def)
  have ar: "auto_rescan scenario_request" by (simp add: scenario_request_def)
  have es: "\<not> er_success (extract_all_configs ?ev (config_types_to_extract (action_id scenario_request)))"
    by (simp add: scenario_env_def extraction_failed_def)
  show ?thesis
    using rescan_failure_is_silent [OF l scenario_command ok ar es]
    by blast
qed

end
